theory Spec2Isabelle
  imports Complex_Main
begin

section \<open>Strings and the regular expressions of \<open>src/index.js\<close>\<close>

text \<open>
  The program is the command line tool \<open>opu\<close>: it reads the URLs of a parsed
  \<open>package.json\<close>, derives the GitHub URLs they point to and builds the list of choices
  shown to the user. The functions modelled are those of the current version of
  \<open>src/index.js\<close> (lines 153 to 317): \<open>findUrlsFromPackageJson\<close>, \<open>detectGitHubUrls\<close>
  and \<open>makeChoices\<close>, with the two lines of the main routine that merge the Git remote URL.

  A JavaScript string is modelled as a \<^typ>\<open>string\<close>, one \<^typ>\<open>char\<close> for each character.
  Every regular expression of the source has the flag \<open>u\<close> only: no \<open>g\<close> (so
  \<open>replace\<close> rewrites the first match only), no \<open>m\<close> (so \<open>$\<close> is the end of the input)
  and no \<open>s\<close> (so \<open>.\<close> matches every character but a line terminator). Of the four line
  terminators of the language, line feed and carriage return are characters of
  \<^typ>\<open>char\<close>.
\<close>

definition isLineTerminator :: "char \<Rightarrow> bool" where
  "isLineTerminator c \<longleftrightarrow> c = CHR 0x0A \<or> c = CHR 0x0D"

text \<open>\<open>s.startsWith(p)\<close>, also what a literal run of a pattern does at a position.\<close>

fun startsWith :: "string \<Rightarrow> string \<Rightarrow> bool" where
  "startsWith s [] = True"
| "startsWith [] (p # ps) = False"
| "startsWith (c # cs) (p # ps) = (c = p \<and> startsWith cs ps)"

text \<open>\<open>s.includes(sub)\<close>: \<open>sub\<close> starts at some position of \<open>s\<close>.\<close>

fun includesString :: "string \<Rightarrow> string \<Rightarrow> bool" where
  "includesString [] sub = startsWith [] sub"
| "includesString (c # cs) sub = (startsWith (c # cs) sub \<or> includesString cs sub)"

text \<open>
  \<open>s.match(re)\<close> without the flag \<open>g\<close>: the pattern is tried at position 0, then 1, and
  so on up to the end of the input, and the first position where it matches gives the
  result. The argument \<open>tryAt\<close> tries the pattern at the start of the string it is given and
  returns the captured groups.
\<close>

fun firstMatch :: "(string \<Rightarrow> 'a option) \<Rightarrow> string \<Rightarrow> 'a option" where
  "firstMatch tryAt [] = tryAt []"
| "firstMatch tryAt (c # cs) =
     (case tryAt (c # cs) of Some m \<Rightarrow> Some m | None \<Rightarrow> firstMatch tryAt cs)"

text \<open>
  \<open>url.replace((/(#.*|\.git$)/u), '')\<close>: at the first position where one of the two
  alternatives matches, the match is deleted. \<open>#.*\<close> runs from a \<open>#\<close> to the end of
  its line; \<open>\.git$\<close> matches only when \<open>.git\<close> are the last four characters of the
  input.
\<close>

fun replaceFragmentOrGit :: "string \<Rightarrow> string" where
  "replaceFragmentOrGit [] = []"
| "replaceFragmentOrGit (c # cs) =
     (if c = CHR ''#'' then dropWhile (\<lambda>d. \<not> isLineTerminator d) cs
      else if c # cs = ''.git'' then []
      else c # replaceFragmentOrGit cs)"

text \<open>
  \<open>url.match((/\((http.*)\)/u))\<close>, group 1. After \<open>(http\<close> the greedy \<open>.*\<close> takes the
  rest of the line and gives characters back until a \<open>)\<close> follows: the group ends
  before the last \<open>)\<close> of that line. With no \<open>)\<close> on the line the pattern fails at
  this position.
\<close>

definition beforeLast :: "char \<Rightarrow> string \<Rightarrow> string" where
  "beforeLast x s = rev (drop 1 (dropWhile (\<lambda>d. d \<noteq> x) (rev s)))"

definition parenHttpAt :: "string \<Rightarrow> string option" where
  "parenHttpAt s =
     (if startsWith s ''(http'' then
        (let line = takeWhile (\<lambda>d. \<not> isLineTerminator d) (drop 5 s)
         in if CHR '')'' \<in> set line then Some (''http'' @ beforeLast (CHR '')'') line) else None)
      else None)"

definition matchParenHttp :: "string \<Rightarrow> string option" where
  "matchParenHttp url = firstMatch parenHttpAt url"

text \<open>\<open>url.replace((/^git\+/u), '')\<close>.\<close>

definition replaceGitPlus :: "string \<Rightarrow> string" where
  "replaceGitPlus url = (if startsWith url ''git+'' then drop 4 url else url)"

text \<open>
  The tail \<open>(.*?)(\/|\?|#|$)\<close> shared by the patterns of \<open>detectGitHubUrls\<close>: the lazy
  group grows one character at a time until \<open>/\<close>, \<open>?\<close>, \<open>#\<close> or the end of the input
  follows. It cannot grow over a line terminator, where the match fails.
\<close>

definition isDelimiter :: "char \<Rightarrow> bool" where
  "isDelimiter c \<longleftrightarrow> c = CHR ''/'' \<or> c = CHR ''?'' \<or> c = CHR ''#''"

fun lazySegment :: "string \<Rightarrow> string option" where
  "lazySegment [] = Some []"
| "lazySegment (c # cs) =
     (if isDelimiter c then Some []
      else if isLineTerminator c then None
      else map_option ((#) c) (lazySegment cs))"

text \<open>\<open>url.match((/github\.com\/(.*?)(\/|\?|#|$)/u))\<close>, group 1.\<close>

definition userNameAt :: "string \<Rightarrow> string option" where
  "userNameAt s = (if startsWith s ''github.com/'' then lazySegment (drop 11 s) else None)"

definition matchUserName :: "string \<Rightarrow> string option" where
  "matchUserName url = firstMatch userNameAt url"

text \<open>
  \<open>url.match((/github\.com\/(.*?)\/(.*?)(\/|\?|#|$)/u))\<close>, groups 1 and 2. The first
  lazy group grows until a \<open>/\<close> follows after which the rest of the pattern matches;
  when the rest fails there, the group goes on growing (over that \<open>/\<close> too).
\<close>

fun lazyThenSlashSegment :: "string \<Rightarrow> (string \<times> string) option" where
  "lazyThenSlashSegment [] = None"
| "lazyThenSlashSegment (c # cs) =
     (case (if c = CHR ''/'' then lazySegment cs else None) of
        Some g2 \<Rightarrow> Some ([], g2)
      | None \<Rightarrow>
          if isLineTerminator c then None
          else map_option (\<lambda>(g1, g2). (c # g1, g2)) (lazyThenSlashSegment cs))"

definition repositoryNameAt :: "string \<Rightarrow> (string \<times> string) option" where
  "repositoryNameAt s =
     (if startsWith s ''github.com/'' then lazyThenSlashSegment (drop 11 s) else None)"

definition matchRepositoryName :: "string \<Rightarrow> (string \<times> string) option" where
  "matchRepositoryName url = firstMatch repositoryNameAt url"

text \<open>
  \<open>url.match((/:\/\/(.+?)\.github\.io(\/.*?)?(\/|\?|#|$)/u))\<close>, groups 1 and 2; group 2
  is \<open>undefined\<close> (here \<open>None\<close>) when the optional part matched nothing.

  After \<open>.github.io\<close>: the optional group is tried first, a \<open>/\<close> and a lazy segment up
  to a delimiter or the end; if that fails the group is skipped and a delimiter or the
  end must follow at once.
\<close>

fun pagesTail :: "string \<Rightarrow> string option option" where
  "pagesTail [] = Some None"
| "pagesTail (c # cs) =
     (if c = CHR ''/'' then
        (case lazySegment cs of Some seg \<Rightarrow> Some (Some (c # seg)) | None \<Rightarrow> Some None)
      else if isDelimiter c then Some None
      else None)"

text \<open>
  The lazy \<open>.+?\<close> after its first character: it stops at the first place where
  \<open>.github.io\<close> and the tail match, and grows otherwise.
\<close>

fun lazyThenGitHubIo :: "string \<Rightarrow> (string \<times> string option) option" where
  "lazyThenGitHubIo [] = None"
| "lazyThenGitHubIo (c # cs) =
     (case (if startsWith (c # cs) ''.github.io'' then pagesTail (drop 10 (c # cs)) else None) of
        Some g2 \<Rightarrow> Some ([], g2)
      | None \<Rightarrow>
          if isLineTerminator c then None
          else map_option (\<lambda>(g1, g2). (c # g1, g2)) (lazyThenGitHubIo cs))"

definition gitHubPagesUrlAt :: "string \<Rightarrow> (string \<times> string option) option" where
  "gitHubPagesUrlAt s =
     (if startsWith s ''://'' then
        (case drop 3 s of
           [] \<Rightarrow> None
         | c # cs \<Rightarrow>
             if isLineTerminator c then None
             else map_option (\<lambda>(g1, g2). (c # g1, g2)) (lazyThenGitHubIo cs))
      else None)"

definition matchGitHubPagesUrl :: "string \<Rightarrow> (string \<times> string option) option" where
  "matchGitHubPagesUrl url = firstMatch gitHubPagesUrlAt url"

text \<open>\<open>gitHubPagesUrlMatch[2].replace((/^\//u), '')\<close>.\<close>

definition replaceLeadingSlash :: "string \<Rightarrow> string" where
  "replaceLeadingSlash s = (if startsWith s ''/'' then drop 1 s else s)"

section \<open>Values of the language\<close>

text \<open>
  What \<open>JSON.parse\<close> returns. An object is the list of its own properties in insertion
  order, each key once; \<open>map_of\<close> reads a property, and a missing property reads as
  \<open>undefined\<close>, here \<open>None\<close>. Of a number only the test against zero is ever used.
\<close>

datatype json =
    JNull
  | JBool bool
  | JNum rat
  | JStr string
  | JArr "json list"
  | JObj "(string \<times> json) list"

type_synonym packageJson = "(string \<times> json) list"

text \<open>The only exception the modelled functions can raise.\<close>

datatype error = TypeError

text \<open>
  \<open>!v\<close> for a value that may be \<open>undefined\<close>: \<open>undefined\<close>, \<open>null\<close>, \<open>false\<close>, zero and
  the empty string are falsy, everything else (every object and array too) is truthy.
\<close>

fun falsyValue :: "json option \<Rightarrow> bool" where
  "falsyValue None = True"
| "falsyValue (Some JNull) = True"
| "falsyValue (Some (JBool b)) = (\<not> b)"
| "falsyValue (Some (JNum x)) = (x = 0)"
| "falsyValue (Some (JStr s)) = (s = [])"
| "falsyValue (Some (JArr xs)) = False"
| "falsyValue (Some (JObj kvs)) = False"

text \<open>\<open>!s\<close> for a string or \<open>null\<close>.\<close>

definition falsy :: "string option \<Rightarrow> bool" where
  "falsy v \<longleftrightarrow> v = None \<or> v = Some []"

text \<open>A string or \<open>null\<close> inside a template literal: \<open>null\<close> prints as \<open>null\<close>.\<close>

definition template :: "string option \<Rightarrow> string" where
  "template v = (case v of None \<Rightarrow> ''null'' | Some s \<Rightarrow> s)"

section \<open>\<open>findUrlsFromPackageJson\<close>\<close>

text \<open>
  \<^verbatim>\<open>(typeof packageJson[propertyName] === 'string') ? packageJson[propertyName]
                                                 : packageJson[propertyName]?.url\<close>
  A string is taken as it is; of an object the property \<open>url\<close> is read; \<open>null\<close> and
  \<open>undefined\<close> stop the optional chain; a number, a boolean or an array has no property
  \<open>url\<close>.
\<close>

fun urlOfProperty :: "json option \<Rightarrow> json option" where
  "urlOfProperty (Some (JStr s)) = Some (JStr s)"
| "urlOfProperty (Some (JObj kvs)) = map_of kvs ''url''"
| "urlOfProperty v = None"

text \<open>
  \<^verbatim>\<open>return !url ? null : url.replace((/(#.*|\.git$)/u), '');\<close>
  Only a string has a method \<open>replace\<close>: on a truthy value of another type the call
  raises a \<open>TypeError\<close>.
\<close>

definition getFromUrlProperty :: "packageJson \<Rightarrow> string \<Rightarrow> error + string option" where
  "getFromUrlProperty packageJson propertyName =
     (let url = urlOfProperty (map_of packageJson propertyName)
      in if falsyValue url then Inr None
         else (case url of
                 Some (JStr s) \<Rightarrow> Inr (Some (replaceFragmentOrGit s))
               | _ \<Rightarrow> Inl TypeError))"

definition author :: "packageJson \<Rightarrow> error + string option" where
  "author packageJson =
     (case getFromUrlProperty packageJson ''author'' of
        Inl e \<Rightarrow> Inl e
      | Inr url \<Rightarrow>
          if falsy url then Inr None
          else (case matchParenHttp (the url) of
                  Some m1 \<Rightarrow> Inr (Some m1)
                | None \<Rightarrow> Inr url))"

definition repository :: "packageJson \<Rightarrow> error + string option" where
  "repository packageJson =
     (case getFromUrlProperty packageJson ''repository'' of
        Inl e \<Rightarrow> Inl e
      | Inr url \<Rightarrow>
          if falsy url then Inr None
          else Inr (Some (replaceGitPlus (the url))))"

text \<open>
  The object \<open>{ homepage, author, repository, bugs, funding }\<close>: its properties in
  insertion order, each a string or \<open>null\<close>.
\<close>

type_synonym urls = "(string \<times> string option) list"

text \<open>
  The five constants are computed in this order, and the first exception ends the
  function.
\<close>

definition findUrlsFromPackageJson :: "packageJson \<Rightarrow> error + urls" where
  "findUrlsFromPackageJson packageJson =
     (case getFromUrlProperty packageJson ''homepage'' of Inl e \<Rightarrow> Inl e | Inr h \<Rightarrow>
     (case author packageJson of Inl e \<Rightarrow> Inl e | Inr a \<Rightarrow>
     (case repository packageJson of Inl e \<Rightarrow> Inl e | Inr r \<Rightarrow>
     (case getFromUrlProperty packageJson ''bugs'' of Inl e \<Rightarrow> Inl e | Inr b \<Rightarrow>
     (case getFromUrlProperty packageJson ''funding'' of Inl e \<Rightarrow> Inl e | Inr f \<Rightarrow>
        Inr [(''homepage'', h), (''author'', a), (''repository'', r),
             (''bugs'', b), (''funding'', f)])))))"

section \<open>\<open>detectGitHubUrls\<close>\<close>

text \<open>
  The four variables the loop assigns, \<open>null\<close> as \<open>None\<close>, and the object the function
  returns, which adds the two derived URLs.
\<close>

record scanState =
  userName :: "string option"
  repositoryName :: "string option"
  hasGitHubPages :: bool
  gitHubPagesUrl :: "string option"

record gitHubUrls = scanState +
  gitHubUserUrl :: "string option"
  gitHubRepositoryUrl :: "string option"

definition initialState :: scanState where
  "initialState =
     \<lparr>userName = None, repositoryName = None, hasGitHubPages = False, gitHubPagesUrl = None\<rparr>"

text \<open>The branch \<open>url.includes('github.com')\<close> (lines 216 to 223).\<close>

definition scanGitHubCom :: "scanState \<Rightarrow> string \<Rightarrow> scanState" where
  "scanGitHubCom st url =
     (let st1 =
        (if falsy (userName st) then
           (case matchUserName url of
              Some m1 \<Rightarrow> if m1 \<noteq> [] then st\<lparr>userName := Some m1\<rparr> else st
            | None \<Rightarrow> st)
         else st)
      in if falsy (repositoryName st1) then
           (case matchRepositoryName url of
              Some (m1, m2) \<Rightarrow> if m2 \<noteq> [] then st1\<lparr>repositoryName := Some m2\<rparr> else st1
            | None \<Rightarrow> st1)
         else st1)"

text \<open>
  The branch \<open>url.includes('github.io') && !gitHubPagesUrl\<close> (lines 226 to 250). The
  flag is assigned before the pattern is tried, and \<open>if(!gitHubPagesUrlMatch) return;\<close>
  leaves the callback with nothing else assigned. \<open>gitHubPagesUrl += ...\<close> appends to the
  variable as a template prints it.
\<close>

definition scanGitHubIo :: "scanState \<Rightarrow> string \<Rightarrow> scanState" where
  "scanGitHubIo st url =
     (let st1 = st\<lparr>hasGitHubPages := True\<rparr>
      in case matchGitHubPagesUrl url of
           None \<Rightarrow> st1
         | Some (m1, m2) \<Rightarrow>
             (let st2 =
                (if m1 \<noteq> [] then
                   (let st' = st1\<lparr>gitHubPagesUrl := Some (''https://'' @ m1 @ ''.github.io'')\<rparr>
                    in if falsy (userName st') then st'\<lparr>userName := Some m1\<rparr> else st')
                 else st1)
              in if \<not> falsy m2 \<and> length (the m2) > 1 then
                   (let st3 = st2\<lparr>gitHubPagesUrl := Some (template (gitHubPagesUrl st2) @ the m2)\<rparr>
                    in if falsy (repositoryName st3) then
                         (let path = replaceLeadingSlash (the m2)
                          in if \<not> includesString path ''.'' then st3\<lparr>repositoryName := Some path\<rparr>
                             else st3)
                       else st3)
                 else if m2 = None \<or> length (the m2) = 1 then
                   (if falsy (repositoryName st2)
                    then st2\<lparr>repositoryName := Some (m1 @ ''.github.io'')\<rparr>
                    else st2)
                 else st2))"

text \<open>One call of the callback of \<open>Object.values(urls).forEach\<close>.\<close>

definition scanUrl :: "scanState \<Rightarrow> string option \<Rightarrow> scanState" where
  "scanUrl st v =
     (case v of
        None \<Rightarrow> st
      | Some url \<Rightarrow>
          if url = [] then st
          else if includesString url ''github.com'' then scanGitHubCom st url
          else if includesString url ''github.io'' \<and> falsy (gitHubPagesUrl st) then scanGitHubIo st url
          else st)"

text \<open>The whole loop: the variables when \<open>forEach\<close> returns.\<close>

definition scanUrls :: "urls \<Rightarrow> scanState" where
  "scanUrls urls = foldl scanUrl initialState (map snd urls)"

text \<open>Lines 254 to 261, after the loop.\<close>

definition detectGitHubUrls :: "urls \<Rightarrow> gitHubUrls" where
  "detectGitHubUrls urls =
     (let st = scanUrls urls;
          user = userName st;
          repo = repositoryName st
      in \<lparr>userName = user,
          repositoryName = repo,
          hasGitHubPages = hasGitHubPages st,
          gitHubPagesUrl =
            (if falsy (gitHubPagesUrl st) \<and> \<not> falsy user then
               Some ((''https://'' @ template user @ ''.github.io'')
                     @ (if \<not> falsy repo then ''/'' @ template repo else []))
             else gitHubPagesUrl st),
          gitHubUserUrl =
            (if \<not> falsy user then Some (''https://github.com/'' @ template user) else None),
          gitHubRepositoryUrl =
            (if \<not> falsy user \<and> \<not> falsy repo
             then Some (''https://github.com/'' @ template user @ ''/'' @ template repo)
             else None)\<rparr>)"

section \<open>\<open>makeChoices\<close>\<close>

text \<open>
  An element of the array \<open>choices\<close>: the fields \<open>name\<close> and \<open>value\<close> of the source. The
  value is a URL, or \<open>false\<close> for the entry that cancels, here \<open>None\<close>.
\<close>

record choice =
  choiceName :: string
  choiceValue :: "string option"

text \<open>A number inside a template literal: its decimal digits.\<close>

fun decimal :: "nat \<Rightarrow> string" where
  "decimal n =
     (if n < 10 then [''0123456789'' ! n]
      else decimal (n div 10) @ [''0123456789'' ! (n mod 10)])"

declare decimal.simps [simp del]

text \<open>
  \<open>choices.push({ name: `[${choices.length + 1}]  ...`, value: ... })\<close>: every label of
  the source starts with the length the array will have.
\<close>

definition pushChoice :: "choice list \<Rightarrow> string \<Rightarrow> string option \<Rightarrow> choice list" where
  "pushChoice choices label v =
     choices @ [\<lparr>choiceName = ''['' @ decimal (length choices + 1) @ '']  '' @ label,
                 choiceValue = v\<rparr>]"

text \<open>\<open>urls[key]\<close>, a missing key reading as falsy as \<open>null\<close> does.\<close>

definition lookupUrl :: "urls \<Rightarrow> string \<Rightarrow> string option" where
  "lookupUrl urls key = (case map_of urls key of Some v \<Rightarrow> v | None \<Rightarrow> None)"

text \<open>One call of the callback of \<open>Object.keys(urls).forEach\<close> (lines 294 to 305).\<close>

definition pushUrlChoice :: "urls \<Rightarrow> choice list \<Rightarrow> string \<Rightarrow> choice list" where
  "pushUrlChoice urls choices key =
     (let url = lookupUrl urls key
      in if falsy url then choices
         else if key = ''gitRemoteUrl'' then
           pushChoice choices (template url @ '' ... Git Remote URL'') url
         else pushChoice choices (template url @ '' ... package.json '' @ key) url)"

definition makeChoices :: "urls \<Rightarrow> gitHubUrls \<Rightarrow> choice list" where
  "makeChoices urls gitHubUrls =
     (let c0 = [];
          c1 =
            (if \<not> falsy (gitHubRepositoryUrl gitHubUrls) then
               pushChoice c0
                 (template (gitHubRepositoryUrl gitHubUrls) @ '' ... GitHub Repository Page (''
                  @ template (userName gitHubUrls) @ ''/''
                  @ template (repositoryName gitHubUrls) @ '')'')
                 (gitHubRepositoryUrl gitHubUrls)
             else c0);
          c2 =
            (if \<not> falsy (gitHubUserUrl gitHubUrls) then
               pushChoice c1
                 (template (gitHubUserUrl gitHubUrls) @ '' ... GitHub User Page (''
                  @ template (userName gitHubUrls) @ '')'')
                 (gitHubUserUrl gitHubUrls)
             else c1);
          c3 =
            (if \<not> falsy (gitHubPagesUrl gitHubUrls) then
               pushChoice c2
                 (template (gitHubPagesUrl gitHubUrls) @ '' ... GitHub Pages''
                  @ (if hasGitHubPages gitHubUrls then [] else '' (Maybe Not Found)''))
                 (gitHubPagesUrl gitHubUrls)
             else c2);
          c4 = foldl (pushUrlChoice urls) c3 (map fst urls)
      in if length c4 > 0 then pushChoice c4 ''Cancel'' None else c4)"

section \<open>The main routine, from the parsed file to the choices\<close>

text \<open>\<open>if(gitRemoteUrl) urls.gitRemoteUrl = gitRemoteUrl;\<close> adds a sixth property.\<close>

definition mergeGitRemoteUrl :: "urls \<Rightarrow> string option \<Rightarrow> urls" where
  "mergeGitRemoteUrl urls gitRemoteUrl =
     (if \<not> falsy gitRemoteUrl then urls @ [(''gitRemoteUrl'', gitRemoteUrl)] else urls)"

text \<open>Lines 335 to 345: extraction, merge, inference, choices.\<close>

definition choicesOf :: "packageJson \<Rightarrow> string option \<Rightarrow> error + choice list" where
  "choicesOf packageJson gitRemoteUrl =
     (case findUrlsFromPackageJson packageJson of
        Inl e \<Rightarrow> Inl e
      | Inr urls0 \<Rightarrow>
          (let urls = mergeGitRemoteUrl urls0 gitRemoteUrl
           in Inr (makeChoices urls (detectGitHubUrls urls))))"

section \<open>The older version of the extraction in \<open>src/unnamed/part_000\<close>\<close>

text \<open>
  \<open>findUrls\<close> of \<open>src/unnamed/part_000\<close> (lines 61 to 72) reads the property with an
  \<open>if\<close>, \<open>else if\<close> instead of the optional chain:
  \<^verbatim>\<open>let url = null;
  if(typeof packageJson[propertyName] === 'string') { url = packageJson[propertyName]; }
  else if(packageJson[propertyName] && packageJson[propertyName].url) { url = packageJson[propertyName].url; }
  if(!url) { return null; }
  return url.replace((/(#.*|\.git$)/u), '');\<close>
  The property \<open>url\<close> of a truthy value that is no object is \<open>undefined\<close>.
\<close>

definition propertyUrl :: "json option \<Rightarrow> json option" where
  "propertyUrl v = (case v of Some (JObj kvs) \<Rightarrow> map_of kvs ''url'' | _ \<Rightarrow> None)"

definition findUrls_getFromUrlProperty :: "packageJson \<Rightarrow> string \<Rightarrow> error + string option" where
  "findUrls_getFromUrlProperty packageJson propertyName =
     (let v = map_of packageJson propertyName;
          url =
            (case v of
               Some (JStr s) \<Rightarrow> Some (JStr s)
             | _ \<Rightarrow> if \<not> falsyValue v \<and> \<not> falsyValue (propertyUrl v) then propertyUrl v
                    else Some JNull)
      in if falsyValue url then Inr None
         else (case url of
                 Some (JStr s) \<Rightarrow> Inr (Some (replaceFragmentOrGit s))
               | _ \<Rightarrow> Inl TypeError))"

section \<open>What the specification describes\<close>

text \<open>
  The definitions of this section follow the words of the specification, to be compared
  with the functions above.

  A URL of the mapping is examined by the Pages branch when it is not empty, contains
  \<open>github.io\<close> and does not contain \<open>github.com\<close>.
\<close>

definition isPagesCandidate :: "string \<Rightarrow> bool" where
  "isPagesCandidate url \<longleftrightarrow>
     url \<noteq> [] \<and> \<not> includesString url ''github.com'' \<and> includesString url ''github.io''"

text \<open>
  The Pages URL an observed URL gives when it matches the Pages pattern:
  \<open>https://{subdomain}.github.io\<close>, followed by the captured path when that is longer
  than a single \<open>/\<close>.
\<close>

definition pagesUrlOf :: "string \<Rightarrow> string option" where
  "pagesUrlOf url =
     (case matchGitHubPagesUrl url of
        None \<Rightarrow> None
      | Some (m1, m2) \<Rightarrow>
          Some (''https://'' @ m1 @ ''.github.io''
                @ (case m2 of None \<Rightarrow> [] | Some p \<Rightarrow> if length p > 1 then p else [])))"

text \<open>The values of the mapping that are not \<open>null\<close>, in iteration order.\<close>

fun observedUrls :: "urls \<Rightarrow> string list" where
  "observedUrls [] = []"
| "observedUrls ((key, None) # rest) = observedUrls rest"
| "observedUrls ((key, Some url) # rest) = url # observedUrls rest"

definition pagesCandidates :: "urls \<Rightarrow> string list" where
  "pagesCandidates urls = filter isPagesCandidate (observedUrls urls)"

text \<open>The Pages URL of the first candidate that matches the Pages pattern.\<close>

definition observedPagesUrl :: "urls \<Rightarrow> string option" where
  "observedPagesUrl urls =
     (case filter (\<lambda>url. pagesUrlOf url \<noteq> None) (pagesCandidates urls) of
        [] \<Rightarrow> None
      | url # rest \<Rightarrow> pagesUrlOf url)"

text \<open>No variable of the loop ever holds the empty string.\<close>

definition namesNonEmpty :: "scanState \<Rightarrow> bool" where
  "namesNonEmpty st \<longleftrightarrow>
     userName st \<noteq> Some [] \<and> repositoryName st \<noteq> Some [] \<and> gitHubPagesUrl st \<noteq> Some []"






text \<open>
  The property at which \<open>getFromUrlProperty\<close> raises: the value it reads is truthy and
  is not a string.
\<close>

definition raisesAt :: "packageJson \<Rightarrow> string \<Rightarrow> bool" where
  "raisesAt packageJson propertyName \<longleftrightarrow>
     (let url = urlOfProperty (map_of packageJson propertyName)
      in \<not> falsyValue url \<and> (case url of Some (JStr s) \<Rightarrow> False | _ \<Rightarrow> True))"

section \<open>Extraction: facts about \<open>findUrlsFromPackageJson\<close>\<close>

lemma getFromUrlProperty_absent:
  "map_of packageJson propertyName = None \<Longrightarrow>
   getFromUrlProperty packageJson propertyName = Inr None"
  by (simp add: getFromUrlProperty_def)

lemma getFromUrlProperty_string:
  "map_of packageJson propertyName = Some (JStr s) \<Longrightarrow>
   getFromUrlProperty packageJson propertyName =
     Inr (if s = [] then None else Some (replaceFragmentOrGit s))"
  by (simp add: getFromUrlProperty_def)

lemma getFromUrlProperty_object_string:
  "map_of packageJson propertyName = Some (JObj kvs) \<Longrightarrow>
   map_of kvs ''url'' = Some (JStr s) \<Longrightarrow>
   getFromUrlProperty packageJson propertyName =
     Inr (if s = [] then None else Some (replaceFragmentOrGit s))"
  by (simp add: getFromUrlProperty_def)

lemma author_absent:
  "map_of packageJson ''author'' = None \<Longrightarrow> author packageJson = Inr None"
  by (simp add: author_def getFromUrlProperty_absent falsy_def)

lemma repository_absent:
  "map_of packageJson ''repository'' = None \<Longrightarrow> repository packageJson = Inr None"
  by (simp add: repository_def getFromUrlProperty_absent falsy_def)

text \<open>
  The two versions of \<open>getFromUrlProperty\<close>, of \<open>src/index.js\<close> and of
  \<open>src/unnamed/part_000\<close>, return the same on every input.
\<close>

lemma findUrls_getFromUrlProperty_eq:
  "findUrls_getFromUrlProperty packageJson propertyName =
     getFromUrlProperty packageJson propertyName"
proof (cases "map_of packageJson propertyName")
  case None
  then show ?thesis
    by (simp add: findUrls_getFromUrlProperty_def getFromUrlProperty_def propertyUrl_def)
next
  case (Some v)
  then show ?thesis
    by (cases v)
      (auto simp: findUrls_getFromUrlProperty_def getFromUrlProperty_def propertyUrl_def Let_def
        split: option.splits json.splits)
qed

lemma replaceFragmentOrGit_acme_pages:
  "replaceFragmentOrGit ''https://acme.github.io/widget/'' = ''https://acme.github.io/widget/''"
  by code_simp

lemma detectGitHubUrls_acme_pages:
  "detectGitHubUrls
     [(''homepage'', Some ''https://acme.github.io/widget/''), (''author'', None),
      (''repository'', None), (''bugs'', None), (''funding'', None)]
   = \<lparr>userName = Some ''acme'', repositoryName = Some ''widget'', hasGitHubPages = True,
      gitHubPagesUrl = Some ''https://acme.github.io/widget'',
      gitHubUserUrl = Some ''https://github.com/acme'',
      gitHubRepositoryUrl = Some ''https://github.com/acme/widget''\<rparr>"
  by code_simp

text \<open>
  C1, as the code has it. For a manifest whose only known field is
  \<open>homepage: "https://acme.github.io/widget/"\<close>, extraction succeeds and inference on
  its result yields \<open>userName = "acme"\<close>, \<open>repositoryName = "widget"\<close>,
  \<open>hasGitHubPages = true\<close>, \<open>gitHubRepositoryUrl = "https://github.com/acme/widget"\<close> and
  \<open>gitHubPagesUrl = "https://acme.github.io/widget"\<close>: the Pages URL is put together from
  the two captured groups, and the \<open>/\<close> that ends the second group is not part of it.
\<close>

theorem C1_homepage_pages_inference:
  assumes "map_of packageJson ''homepage'' = Some (JStr ''https://acme.github.io/widget/'')"
    and "map_of packageJson ''author'' = None"
    and "map_of packageJson ''repository'' = None"
    and "map_of packageJson ''bugs'' = None"
    and "map_of packageJson ''funding'' = None"
  shows "\<exists>urls. findUrlsFromPackageJson packageJson = Inr urls
           \<and> userName (detectGitHubUrls urls) = Some ''acme''
           \<and> repositoryName (detectGitHubUrls urls) = Some ''widget''
           \<and> hasGitHubPages (detectGitHubUrls urls) = True
           \<and> gitHubPagesUrl (detectGitHubUrls urls) = Some ''https://acme.github.io/widget''
           \<and> gitHubRepositoryUrl (detectGitHubUrls urls) = Some ''https://github.com/acme/widget''"
proof -
  have "findUrlsFromPackageJson packageJson =
      Inr [(''homepage'', Some ''https://acme.github.io/widget/''), (''author'', None),
           (''repository'', None), (''bugs'', None), (''funding'', None)]"
    using assms
    by (simp add: findUrlsFromPackageJson_def getFromUrlProperty_string
        getFromUrlProperty_absent author_absent repository_absent
        replaceFragmentOrGit_acme_pages)
  then show ?thesis
    by (simp add: detectGitHubUrls_acme_pages)
qed

text \<open>The theorem of C1 at a manifest that also has a field the extraction ignores.\<close>

theorem C1_homepage_pages_inference_witness:
  "\<exists>urls. findUrlsFromPackageJson
             [(''name'', JStr ''widget''), (''homepage'', JStr ''https://acme.github.io/widget/'')]
           = Inr urls
           \<and> userName (detectGitHubUrls urls) = Some ''acme''
           \<and> repositoryName (detectGitHubUrls urls) = Some ''widget''
           \<and> hasGitHubPages (detectGitHubUrls urls) = True
           \<and> gitHubPagesUrl (detectGitHubUrls urls) = Some ''https://acme.github.io/widget''
           \<and> gitHubRepositoryUrl (detectGitHubUrls urls) = Some ''https://github.com/acme/widget''"
  by (rule C1_homepage_pages_inference) simp_all

text \<open>
  C1 as written fails: at the manifest \<open>{ homepage: "https://acme.github.io/widget/" }\<close>
  the inferred \<open>gitHubPagesUrl\<close> is not \<open>"https://acme.github.io/widget/"\<close> with the
  trailing slash.
\<close>

theorem C1_trailing_slash_counterexample:
  "findUrlsFromPackageJson [(''homepage'', JStr ''https://acme.github.io/widget/'')]
     = Inr [(''homepage'', Some ''https://acme.github.io/widget/''), (''author'', None),
            (''repository'', None), (''bugs'', None), (''funding'', None)]
   \<and> gitHubPagesUrl
        (detectGitHubUrls
           [(''homepage'', Some ''https://acme.github.io/widget/''), (''author'', None),
            (''repository'', None), (''bugs'', None), (''funding'', None)])
     \<noteq> Some ''https://acme.github.io/widget/''"
  by code_simp

text \<open>
  Where the single \<open>replace\<close> does what its comment says: a value with a fragment on its
  last line loses the fragment, and a value without \<open>#\<close> loses a final \<open>.git\<close>.
\<close>

lemma replaceFragmentOrGit_fragment:
  "CHR ''#'' \<notin> set s \<Longrightarrow> \<forall>c \<in> set t. \<not> isLineTerminator c \<Longrightarrow>
   replaceFragmentOrGit (s @ CHR ''#'' # t) = s"
proof (induction s)
  case Nil
  then have "dropWhile (\<lambda>d. \<not> isLineTerminator d) t = []" by simp
  then show ?case by simp
next
  case (Cons c s)
  from Cons.prems have c: "c \<noteq> CHR ''#''" and s: "CHR ''#'' \<notin> set s" by auto
  have "CHR ''#'' \<in> set (c # s @ CHR ''#'' # t)" by simp
  moreover have "CHR ''#'' \<notin> set ''.git''" by simp
  ultimately have "c # s @ CHR ''#'' # t \<noteq> ''.git''" by metis
  then show ?case
    using c Cons.IH [OF s Cons.prems(2)] by simp
qed

lemma replaceFragmentOrGit_git:
  "CHR ''#'' \<notin> set s \<Longrightarrow> replaceFragmentOrGit (s @ ''.git'') = s"
proof (induction s)
  case Nil
  show ?case by simp
next
  case (Cons c s)
  from Cons.prems have c: "c \<noteq> CHR ''#''" and s: "CHR ''#'' \<notin> set s" by auto
  have "length (c # s @ ''.git'') \<noteq> length ''.git''" by simp
  then have "c # s @ ''.git'' \<noteq> ''.git''" by metis
  then show ?case
    using c Cons.IH [OF s] by simp
qed

text \<open>
  C3, the code at a value that carries both endings. For
  \<open>repository: "git+https://github.com/acme/widget.git#readme"\<close> the single \<open>replace\<close>
  deletes the fragment, its first match, and the extracted value still ends in \<open>.git\<close>.
\<close>

theorem C3_fragment_after_git_suffix:
  "findUrlsFromPackageJson
     [(''repository'', JStr ''git+https://github.com/acme/widget.git#readme'')]
   = Inr [(''homepage'', None), (''author'', None),
          (''repository'', Some ''https://github.com/acme/widget.git''),
          (''bugs'', None), (''funding'', None)]"
  by code_simp

text \<open>
  The extraction raises exactly when one of the five properties holds a truthy value
  that is not a string where the URL is read.
\<close>

lemma getFromUrlProperty_raises:
  "(\<exists>e. getFromUrlProperty packageJson propertyName = Inl e) \<longleftrightarrow> raisesAt packageJson propertyName"
  by (auto simp: getFromUrlProperty_def raisesAt_def Let_def split: option.splits json.splits)

lemma author_raises:
  "(\<exists>e. author packageJson = Inl e) \<longleftrightarrow> raisesAt packageJson ''author''"
  unfolding getFromUrlProperty_raises [symmetric]
  by (auto simp: author_def split: sum.splits option.splits)

lemma repository_raises:
  "(\<exists>e. repository packageJson = Inl e) \<longleftrightarrow> raisesAt packageJson ''repository''"
  unfolding getFromUrlProperty_raises [symmetric]
  by (auto simp: repository_def split: sum.splits option.splits)

lemma findUrlsFromPackageJson_raises:
  "(\<exists>e. findUrlsFromPackageJson packageJson = Inl e) \<longleftrightarrow>
     raisesAt packageJson ''homepage'' \<or> raisesAt packageJson ''author''
     \<or> raisesAt packageJson ''repository'' \<or> raisesAt packageJson ''bugs''
     \<or> raisesAt packageJson ''funding''"
  using getFromUrlProperty_raises [of packageJson "''homepage''"]
    author_raises [of packageJson] repository_raises [of packageJson]
    getFromUrlProperty_raises [of packageJson "''bugs''"]
    getFromUrlProperty_raises [of packageJson "''funding''"]
  by (auto simp: findUrlsFromPackageJson_def split: sum.splits)

text \<open>
  C4, the code at an object whose \<open>url\<close> is a number. For
  \<open>{ homepage: "https://example.com/", bugs: { url: 123 } }\<close> the call \<open>url.replace\<close>
  raises a \<open>TypeError\<close>, which ends the extraction: no record is returned, the homepage
  is lost with it.
\<close>

theorem C4_number_url_raises:
  "findUrlsFromPackageJson
     [(''homepage'', JStr ''https://example.com/''), (''bugs'', JObj [(''url'', JNum 123)])]
   = Inl TypeError"
  by code_simp

text \<open>
  C5, as the code has it. The search for a parenthesized URL is applied to the
  normalized author value whatever its source: an author given as a plain string and an
  author given as an object whose \<open>url\<close> is that string are extracted to the same value,
  the content of the parentheses when the normalized value has a match, the normalized
  value otherwise, \<open>null\<close> when it is empty.
\<close>

theorem C5_author_search_on_both_shapes:
  assumes "map_of packageJson1 ''author'' = Some (JStr s)"
    and "map_of packageJson2 ''author'' = Some (JObj kvs)"
    and "map_of kvs ''url'' = Some (JStr s)"
  shows "author packageJson2 = author packageJson1
    \<and> author packageJson2 =
        Inr (if s = [] \<or> replaceFragmentOrGit s = [] then None
             else (case matchParenHttp (replaceFragmentOrGit s) of
                     Some m1 \<Rightarrow> Some m1
                   | None \<Rightarrow> Some (replaceFragmentOrGit s)))"
  using assms
  by (simp add: author_def getFromUrlProperty_string getFromUrlProperty_object_string falsy_def
      split: option.splits)

text \<open>The theorem of C5 at \<open>"Jane Doe (https://jane.dev)"\<close>, as a string and as an object.\<close>

theorem C5_author_search_on_both_shapes_witness:
  "author [(''author'', JObj [(''url'', JStr ''Jane Doe (https://jane.dev)'')])]
     = author [(''author'', JStr ''Jane Doe (https://jane.dev)'')]
   \<and> author [(''author'', JObj [(''url'', JStr ''Jane Doe (https://jane.dev)'')])]
     = Inr (Some ''https://jane.dev'')"
proof -
  have r: "replaceFragmentOrGit ''Jane Doe (https://jane.dev)'' = ''Jane Doe (https://jane.dev)''"
    by code_simp
  have m: "matchParenHttp ''Jane Doe (https://jane.dev)'' = Some ''https://jane.dev''"
    by code_simp
  have "map_of [(''author'', JStr ''Jane Doe (https://jane.dev)'')] ''author''
      = Some (JStr ''Jane Doe (https://jane.dev)'')"
    and "map_of [(''author'', JObj [(''url'', JStr ''Jane Doe (https://jane.dev)'')])] ''author''
      = Some (JObj [(''url'', JStr ''Jane Doe (https://jane.dev)'')])"
    and "map_of [(''url'', JStr ''Jane Doe (https://jane.dev)'')] ''url''
      = Some (JStr ''Jane Doe (https://jane.dev)'')"
    by simp_all
  from C5_author_search_on_both_shapes [OF this] show ?thesis
    unfolding r m by auto
qed

text \<open>
  C5 as written fails: an author taken from an object's \<open>url\<close> property is searched too.
  For \<open>author: { url: "Jane Doe (https://jane.dev)" }\<close> the extracted author is
  \<open>"https://jane.dev"\<close> and not the normalized value of the property.
\<close>

theorem C5_object_author_counterexample:
  "findUrlsFromPackageJson [(''author'', JObj [(''url'', JStr ''Jane Doe (https://jane.dev)'')])]
     = Inr [(''homepage'', None), (''author'', Some ''https://jane.dev''),
            (''repository'', None), (''bugs'', None), (''funding'', None)]
   \<and> Some ''https://jane.dev'' \<noteq> Some (replaceFragmentOrGit ''Jane Doe (https://jane.dev)'')"
  by code_simp

section \<open>Inference: invariants of the loop of \<open>detectGitHubUrls\<close>\<close>

lemma firstMatch_SomeD: "firstMatch tryAt s = Some m \<Longrightarrow> \<exists>t. tryAt t = Some m"
  by (induction s) (auto split: option.splits)

text \<open>Group 1 of the Pages pattern is \<open>.+?\<close>: it is never empty.\<close>

lemma matchGitHubPagesUrl_group1: "matchGitHubPagesUrl url = Some (m1, m2) \<Longrightarrow> m1 \<noteq> []"
proof -
  assume "matchGitHubPagesUrl url = Some (m1, m2)"
  then obtain t where "gitHubPagesUrlAt t = Some (m1, m2)"
    unfolding matchGitHubPagesUrl_def by (auto dest: firstMatch_SomeD)
  then show ?thesis
    by (auto simp: gitHubPagesUrlAt_def split: if_splits list.splits)
qed

lemma replaceLeadingSlash_nonempty: "length p > 1 \<Longrightarrow> replaceLeadingSlash p \<noteq> []"
  by (cases p) (auto simp: replaceLeadingSlash_def)

lemma scanGitHubCom_pages:
  "hasGitHubPages (scanGitHubCom st url) = hasGitHubPages st"
  "gitHubPagesUrl (scanGitHubCom st url) = gitHubPagesUrl st"
  by (auto simp: scanGitHubCom_def Let_def split: option.splits prod.splits)

lemma scanGitHubCom_namesNonEmpty:
  "namesNonEmpty st \<Longrightarrow> namesNonEmpty (scanGitHubCom st url)"
  by (auto simp: scanGitHubCom_def namesNonEmpty_def Let_def split: option.splits prod.splits)

lemma scanGitHubIo_hasGitHubPages: "hasGitHubPages (scanGitHubIo st url) = True"
  by (auto simp: scanGitHubIo_def Let_def split: option.splits prod.splits)

lemma scanGitHubIo_gitHubPagesUrl:
  "gitHubPagesUrl (scanGitHubIo st url) =
     (case pagesUrlOf url of None \<Rightarrow> gitHubPagesUrl st | Some p \<Rightarrow> Some p)"
proof (cases "matchGitHubPagesUrl url")
  case None
  then show ?thesis by (simp add: scanGitHubIo_def pagesUrlOf_def)
next
  case (Some m)
  obtain m1 m2 where m: "m = (m1, m2)" by (cases m)
  have "m1 \<noteq> []" using Some m matchGitHubPagesUrl_group1 by blast
  then show ?thesis
    using Some m
    by (cases m2) (auto simp: scanGitHubIo_def pagesUrlOf_def Let_def falsy_def template_def)
qed

lemma scanGitHubIo_namesNonEmpty:
  "namesNonEmpty st \<Longrightarrow> namesNonEmpty (scanGitHubIo st url)"
proof (cases "matchGitHubPagesUrl url")
  case None
  assume "namesNonEmpty st"
  with None show ?thesis by (simp add: scanGitHubIo_def namesNonEmpty_def)
next
  case (Some m)
  assume n: "namesNonEmpty st"
  obtain m1 m2 where m: "m = (m1, m2)" by (cases m)
  have "m1 \<noteq> []" using Some m matchGitHubPagesUrl_group1 by blast
  then show ?thesis
    using Some m n
    by (cases m2)
      (auto simp: scanGitHubIo_def namesNonEmpty_def Let_def falsy_def template_def
        replaceLeadingSlash_nonempty)
qed

lemma scanUrl_namesNonEmpty: "namesNonEmpty st \<Longrightarrow> namesNonEmpty (scanUrl st v)"
  by (auto simp: scanUrl_def scanGitHubCom_namesNonEmpty scanGitHubIo_namesNonEmpty
      split: option.splits)

lemma foldl_scanUrl_namesNonEmpty:
  "namesNonEmpty st \<Longrightarrow> namesNonEmpty (foldl scanUrl st vs)"
  by (induction vs arbitrary: st) (simp_all add: scanUrl_namesNonEmpty)

lemma scanUrls_namesNonEmpty: "namesNonEmpty (scanUrls urls)"
  unfolding scanUrls_def
  by (rule foldl_scanUrl_namesNonEmpty) (simp add: namesNonEmpty_def initialState_def)

text \<open>What one call of the callback does to the flag and to the Pages URL.\<close>

lemma scanUrl_hasGitHubPages:
  "hasGitHubPages (scanUrl st v) =
     (hasGitHubPages st
      \<or> (\<exists>url. v = Some url \<and> isPagesCandidate url \<and> falsy (gitHubPagesUrl st)))"
  by (auto simp: scanUrl_def scanGitHubCom_pages scanGitHubIo_hasGitHubPages isPagesCandidate_def
      split: option.splits)

lemma scanUrl_gitHubPagesUrl:
  "gitHubPagesUrl (scanUrl st v) =
     (case v of
        None \<Rightarrow> gitHubPagesUrl st
      | Some url \<Rightarrow>
          if isPagesCandidate url \<and> falsy (gitHubPagesUrl st)
          then (case pagesUrlOf url of None \<Rightarrow> gitHubPagesUrl st | Some p \<Rightarrow> Some p)
          else gitHubPagesUrl st)"
  by (auto simp: scanUrl_def scanGitHubCom_pages scanGitHubIo_gitHubPagesUrl isPagesCandidate_def
      split: option.splits)

lemma pagesUrlOf_nonempty: "pagesUrlOf url = Some p \<Longrightarrow> p \<noteq> []"
  by (auto simp: pagesUrlOf_def split: option.splits prod.splits)

lemma pagesCandidates_simps:
  "pagesCandidates [] = []"
  "pagesCandidates ((key, None) # urls) = pagesCandidates urls"
  "pagesCandidates ((key, Some url) # urls) =
     (if isPagesCandidate url then url # pagesCandidates urls else pagesCandidates urls)"
  by (simp_all add: pagesCandidates_def)

lemma observedPagesUrl_simps:
  "observedPagesUrl [] = None"
  "observedPagesUrl ((key, None) # urls) = observedPagesUrl urls"
  "observedPagesUrl ((key, Some url) # urls) =
     (if isPagesCandidate url \<and> pagesUrlOf url \<noteq> None then pagesUrlOf url
      else observedPagesUrl urls)"
  by (simp_all add: observedPagesUrl_def pagesCandidates_simps)

text \<open>
  The loop from any state whose Pages URL is not the empty string: the flag is raised
  by the first candidate, the Pages URL is that of the first candidate that matches.
\<close>

lemma foldl_scanUrl_pages:
  "gitHubPagesUrl st \<noteq> Some [] \<Longrightarrow>
   hasGitHubPages (foldl scanUrl st (map snd urls)) =
     (hasGitHubPages st \<or> (gitHubPagesUrl st = None \<and> pagesCandidates urls \<noteq> []))
   \<and> gitHubPagesUrl (foldl scanUrl st (map snd urls)) =
     (case gitHubPagesUrl st of Some p \<Rightarrow> Some p | None \<Rightarrow> observedPagesUrl urls)"
proof (induction urls arbitrary: st)
  case Nil
  then show ?case
    by (simp add: pagesCandidates_simps observedPagesUrl_simps split: option.splits)
next
  case (Cons kv urls)
  obtain key v where kv: "kv = (key, v)" by (cases kv)
  let ?st = "scanUrl st v"
  have ne: "gitHubPagesUrl ?st \<noteq> Some []"
    using Cons.prems
    by (auto simp: scanUrl_gitHubPagesUrl dest: pagesUrlOf_nonempty split: option.splits)
  note ih = Cons.IH [OF ne]
  show ?case
  proof (cases v)
    case None
    have "scanUrl st None = st" by (simp add: scanUrl_def)
    then show ?thesis
      using ih unfolding kv None
      by (simp add: pagesCandidates_simps observedPagesUrl_simps split: option.splits)
  next
    case (Some url)
    show ?thesis
    proof (cases "isPagesCandidate url \<and> gitHubPagesUrl st = None")
      case False
      then have same:
        "hasGitHubPages ?st = hasGitHubPages st" "gitHubPagesUrl ?st = gitHubPagesUrl st"
        using Some Cons.prems
        by (auto simp: scanUrl_hasGitHubPages scanUrl_gitHubPagesUrl falsy_def)
      show ?thesis
      proof (cases "gitHubPagesUrl st")
        case None
        with False have "\<not> isPagesCandidate url" by simp
        then show ?thesis
          using ih kv Some same None
          by (simp add: pagesCandidates_simps observedPagesUrl_simps)
      next
        case (Some p)
        then show ?thesis
          using ih kv same by simp
      qed
    next
      case True
      then have flag: "hasGitHubPages ?st"
        using Some by (simp add: scanUrl_hasGitHubPages falsy_def)
      have url: "gitHubPagesUrl ?st = pagesUrlOf url"
        using True Some by (simp add: scanUrl_gitHubPagesUrl falsy_def split: option.splits)
      show ?thesis
        using ih kv Some True flag url
        by (cases "pagesUrlOf url") (simp_all add: pagesCandidates_simps observedPagesUrl_simps)
    qed
  qed
qed

lemma scanUrls_pages:
  "hasGitHubPages (scanUrls urls) = (pagesCandidates urls \<noteq> [])"
  "gitHubPagesUrl (scanUrls urls) = observedPagesUrl urls"
  using foldl_scanUrl_pages [of initialState urls]
  by (simp_all add: scanUrls_def initialState_def)

lemma first_matching_candidate:
  "(case filter (\<lambda>url. pagesUrlOf url \<noteq> None) xs of [] \<Rightarrow> None | url # rest \<Rightarrow> pagesUrlOf url)
     \<noteq> None
   \<longleftrightarrow> (\<exists>url \<in> set xs. pagesUrlOf url \<noteq> None)"
  by (induction xs) auto

lemma observedPagesUrl_Some_iff:
  "observedPagesUrl urls \<noteq> None
   \<longleftrightarrow> (\<exists>url \<in> set (pagesCandidates urls). pagesUrlOf url \<noteq> None)"
  unfolding observedPagesUrl_def by (rule first_matching_candidate)

lemma observedPagesUrl_SomeD:
  "observedPagesUrl urls = Some p \<Longrightarrow> \<exists>url \<in> set (pagesCandidates urls). pagesUrlOf url = Some p"
proof -
  assume o: "observedPagesUrl urls = Some p"
  then obtain url rest where
    f: "filter (\<lambda>url. pagesUrlOf url \<noteq> None) (pagesCandidates urls) = url # rest"
    by (auto simp: observedPagesUrl_def split: list.splits)
  have "url \<in> set (url # rest)" by simp
  then have "url \<in> set (filter (\<lambda>url. pagesUrlOf url \<noteq> None) (pagesCandidates urls))"
    by (simp only: f)
  then have "url \<in> set (pagesCandidates urls)" by simp
  moreover have "pagesUrlOf url = Some p"
    using o unfolding observedPagesUrl_def f by simp
  ultimately show ?thesis by blast
qed

text \<open>
  Where the flag and the Pages URL go together. The flag is true only if some scanned URL
  is not empty, contains \<open>github.io\<close> and does not contain \<open>github.com\<close>; and when one
  of these URLs matches the Pages pattern, \<open>gitHubPagesUrl\<close> is not \<open>null\<close>, it is the
  value the loop left (not the fallback computed after the loop), and it was built from
  the first of them that matches.
\<close>

lemma flag_with_matching_candidate:
  "(hasGitHubPages (detectGitHubUrls urls) \<longrightarrow> pagesCandidates urls \<noteq> [])
   \<and> (hasGitHubPages (detectGitHubUrls urls)
        \<and> (\<exists>url \<in> set (pagesCandidates urls). pagesUrlOf url \<noteq> None) \<longrightarrow>
      gitHubPagesUrl (detectGitHubUrls urls) \<noteq> None
      \<and> gitHubPagesUrl (detectGitHubUrls urls) = gitHubPagesUrl (scanUrls urls)
      \<and> gitHubPagesUrl (detectGitHubUrls urls) = observedPagesUrl urls
      \<and> (\<exists>url \<in> set (pagesCandidates urls).
            gitHubPagesUrl (detectGitHubUrls urls) = pagesUrlOf url))"
proof -
  have flag: "hasGitHubPages (detectGitHubUrls urls) = (pagesCandidates urls \<noteq> [])"
    by (simp add: detectGitHubUrls_def Let_def scanUrls_pages)
  have "gitHubPagesUrl (scanUrls urls) \<noteq> Some []"
    using scanUrls_namesNonEmpty [of urls] by (simp add: namesNonEmpty_def)
  then have keep: "observedPagesUrl urls \<noteq> None \<Longrightarrow>
      gitHubPagesUrl (detectGitHubUrls urls) = observedPagesUrl urls"
    by (auto simp: detectGitHubUrls_def Let_def scanUrls_pages falsy_def)
  have first: "hasGitHubPages (detectGitHubUrls urls) \<longrightarrow> pagesCandidates urls \<noteq> []"
    using flag by simp
  have second: "gitHubPagesUrl (detectGitHubUrls urls) \<noteq> None
      \<and> gitHubPagesUrl (detectGitHubUrls urls) = gitHubPagesUrl (scanUrls urls)
      \<and> gitHubPagesUrl (detectGitHubUrls urls) = observedPagesUrl urls
      \<and> (\<exists>url \<in> set (pagesCandidates urls).
            gitHubPagesUrl (detectGitHubUrls urls) = pagesUrlOf url)"
    if "\<exists>url \<in> set (pagesCandidates urls). pagesUrlOf url \<noteq> None"
  proof -
    from that have some: "observedPagesUrl urls \<noteq> None"
      by (simp only: observedPagesUrl_Some_iff)
    then obtain p where p: "observedPagesUrl urls = Some p" by blast
    have eq: "gitHubPagesUrl (detectGitHubUrls urls) = observedPagesUrl urls"
      using keep some by simp
    from observedPagesUrl_SomeD [OF p] obtain url where
      u: "url \<in> set (pagesCandidates urls)" and pu: "pagesUrlOf url = Some p" by blast
    have "gitHubPagesUrl (detectGitHubUrls urls) = pagesUrlOf url"
      using eq p pu by simp
    with u have "\<exists>url \<in> set (pagesCandidates urls).
        gitHubPagesUrl (detectGitHubUrls urls) = pagesUrlOf url"
      by blast
    then show ?thesis
      using eq p by (simp add: scanUrls_pages)
  qed
  from first second show ?thesis by blast
qed

text \<open>
  C2, the code at a \<open>github.io\<close> URL that the Pages pattern does not match. For
  \<open>{ homepage: "foo.github.io", repository: "https://github.com/bar/baz" }\<close> the
  homepage contains \<open>github.io\<close> and has no \<open>://\<close>: line 226 raises the flag, the
  pattern fails and line 229 returns. The loop ends with no Pages URL, the fallback
  computes \<open>https://bar.github.io/baz\<close> from the user and repository names of the second
  URL, and \<open>hasGitHubPages\<close> is true with it: the third choice is labelled as a Pages
  site that is certain. Without the homepage the same fallback URL is labelled
  \<open>(Maybe Not Found)\<close>.
\<close>

theorem C2_flag_raised_before_match:
  "findUrlsFromPackageJson
     [(''homepage'', JStr ''foo.github.io''), (''repository'', JStr ''https://github.com/bar/baz'')]
   = Inr [(''homepage'', Some ''foo.github.io''), (''author'', None),
          (''repository'', Some ''https://github.com/bar/baz''),
          (''bugs'', None), (''funding'', None)]
   \<and> hasGitHubPages
       (detectGitHubUrls
          [(''homepage'', Some ''foo.github.io''), (''author'', None),
           (''repository'', Some ''https://github.com/bar/baz''),
           (''bugs'', None), (''funding'', None)]) = True
   \<and> gitHubPagesUrl
       (scanUrls
          [(''homepage'', Some ''foo.github.io''), (''author'', None),
           (''repository'', Some ''https://github.com/bar/baz''),
           (''bugs'', None), (''funding'', None)]) = None
   \<and> gitHubPagesUrl
       (detectGitHubUrls
          [(''homepage'', Some ''foo.github.io''), (''author'', None),
           (''repository'', Some ''https://github.com/bar/baz''),
           (''bugs'', None), (''funding'', None)]) = Some ''https://bar.github.io/baz''
   \<and> choicesOf
       [(''homepage'', JStr ''foo.github.io''), (''repository'', JStr ''https://github.com/bar/baz'')]
       None
     = Inr [\<lparr>choiceName = ''[1]  https://github.com/bar/baz ... GitHub Repository Page (bar/baz)'',
             choiceValue = Some ''https://github.com/bar/baz''\<rparr>,
            \<lparr>choiceName = ''[2]  https://github.com/bar ... GitHub User Page (bar)'',
             choiceValue = Some ''https://github.com/bar''\<rparr>,
            \<lparr>choiceName = ''[3]  https://bar.github.io/baz ... GitHub Pages'',
             choiceValue = Some ''https://bar.github.io/baz''\<rparr>,
            \<lparr>choiceName = ''[4]  foo.github.io ... package.json homepage'',
             choiceValue = Some ''foo.github.io''\<rparr>,
            \<lparr>choiceName = ''[5]  https://github.com/bar/baz ... package.json repository'',
             choiceValue = Some ''https://github.com/bar/baz''\<rparr>,
            \<lparr>choiceName = ''[6]  Cancel'', choiceValue = None\<rparr>]
   \<and> choicesOf [(''repository'', JStr ''https://github.com/bar/baz'')] None
     = Inr [\<lparr>choiceName = ''[1]  https://github.com/bar/baz ... GitHub Repository Page (bar/baz)'',
             choiceValue = Some ''https://github.com/bar/baz''\<rparr>,
            \<lparr>choiceName = ''[2]  https://github.com/bar ... GitHub User Page (bar)'',
             choiceValue = Some ''https://github.com/bar''\<rparr>,
            \<lparr>choiceName = ''[3]  https://bar.github.io/baz ... GitHub Pages (Maybe Not Found)'',
             choiceValue = Some ''https://bar.github.io/baz''\<rparr>,
            \<lparr>choiceName = ''[4]  https://github.com/bar/baz ... package.json repository'',
             choiceValue = Some ''https://github.com/bar/baz''\<rparr>,
            \<lparr>choiceName = ''[5]  Cancel'', choiceValue = None\<rparr>]"
  by code_simp

text \<open>
  C6. For every input URL mapping, \<open>gitHubRepositoryUrl\<close> is not \<open>null\<close> only if
  \<open>gitHubUserUrl\<close> is not \<open>null\<close>; and whenever \<open>userName\<close> is set and \<open>repositoryName\<close>
  is not, \<open>gitHubRepositoryUrl\<close> is \<open>null\<close> and \<open>gitHubUserUrl\<close> is
  \<open>https://github.com/{userName}\<close>.
\<close>

theorem C6_repository_needs_user:
  "(gitHubRepositoryUrl (detectGitHubUrls urls) \<noteq> None \<longrightarrow>
      gitHubUserUrl (detectGitHubUrls urls) \<noteq> None)
   \<and> (userName (detectGitHubUrls urls) = Some user
        \<and> repositoryName (detectGitHubUrls urls) = None \<longrightarrow>
      gitHubRepositoryUrl (detectGitHubUrls urls) = None
      \<and> gitHubUserUrl (detectGitHubUrls urls) = Some (''https://github.com/'' @ user))"
proof -
  have "userName (scanUrls urls) \<noteq> Some []"
    using scanUrls_namesNonEmpty [of urls] by (simp add: namesNonEmpty_def)
  then show ?thesis
    by (auto simp: detectGitHubUrls_def Let_def falsy_def template_def)
qed

text \<open>
  The theorem of C6 at \<open>homepage: "https://github.com/acme"\<close>, where a user name is
  found and no repository name, and at the homepage of C1, where both URLs are derived.
\<close>

theorem C6_repository_needs_user_witness:
  "userName (detectGitHubUrls [(''homepage'', Some ''https://github.com/acme'')]) = Some ''acme''
   \<and> repositoryName (detectGitHubUrls [(''homepage'', Some ''https://github.com/acme'')]) = None
   \<and> gitHubRepositoryUrl (detectGitHubUrls [(''homepage'', Some ''https://github.com/acme'')]) = None
   \<and> gitHubUserUrl (detectGitHubUrls [(''homepage'', Some ''https://github.com/acme'')])
       = Some ''https://github.com/acme''
   \<and> gitHubRepositoryUrl
       (detectGitHubUrls [(''homepage'', Some ''https://acme.github.io/widget/'')]) \<noteq> None
   \<and> gitHubUserUrl
       (detectGitHubUrls [(''homepage'', Some ''https://acme.github.io/widget/'')]) \<noteq> None"
proof -
  have u: "userName (detectGitHubUrls [(''homepage'', Some ''https://github.com/acme'')])
      = Some ''acme''"
    by code_simp
  have r: "repositoryName (detectGitHubUrls [(''homepage'', Some ''https://github.com/acme'')])
      = None"
    by code_simp
  have g: "gitHubRepositoryUrl
      (detectGitHubUrls [(''homepage'', Some ''https://acme.github.io/widget/'')]) \<noteq> None"
    by code_simp
  from C6_repository_needs_user [of "[(''homepage'', Some ''https://github.com/acme'')]" "''acme''"]
    C6_repository_needs_user [of "[(''homepage'', Some ''https://acme.github.io/widget/'')]"]
    u r g
  show ?thesis by simp
qed

text \<open>
  C10. There is an input mapping in which \<open>userName\<close> is taken from one URL and
  \<open>repositoryName\<close> from a different, later URL: the first URL gives the user name and
  has no second segment, the second URL has another user and gives the repository
  name, and the derived \<open>gitHubRepositoryUrl\<close> joins two segments that no input URL
  holds together.
\<close>

theorem C10_user_and_repository_from_different_urls:
  "\<exists>first second user other repo.
     matchUserName first = Some user
     \<and> matchRepositoryName first = None
     \<and> matchUserName second = Some other
     \<and> matchRepositoryName second = Some (other, repo)
     \<and> other \<noteq> user
     \<and> \<not> includesString first repo
     \<and> \<not> includesString second user
     \<and> userName (detectGitHubUrls [(''homepage'', Some first), (''repository'', Some second)])
         = Some user
     \<and> repositoryName (detectGitHubUrls [(''homepage'', Some first), (''repository'', Some second)])
         = Some repo
     \<and> gitHubRepositoryUrl
         (detectGitHubUrls [(''homepage'', Some first), (''repository'', Some second)])
         = Some (''https://github.com/'' @ user @ ''/'' @ repo)"
proof -
  have "matchUserName ''https://github.com/acme'' = Some ''acme''
     \<and> matchRepositoryName ''https://github.com/acme'' = None
     \<and> matchUserName ''https://github.com/other/widget'' = Some ''other''
     \<and> matchRepositoryName ''https://github.com/other/widget'' = Some (''other'', ''widget'')
     \<and> ''other'' \<noteq> ''acme''
     \<and> \<not> includesString ''https://github.com/acme'' ''widget''
     \<and> \<not> includesString ''https://github.com/other/widget'' ''acme''
     \<and> userName (detectGitHubUrls [(''homepage'', Some ''https://github.com/acme''),
           (''repository'', Some ''https://github.com/other/widget'')])
         = Some ''acme''
     \<and> repositoryName (detectGitHubUrls [(''homepage'', Some ''https://github.com/acme''),
           (''repository'', Some ''https://github.com/other/widget'')])
         = Some ''widget''
     \<and> gitHubRepositoryUrl
         (detectGitHubUrls [(''homepage'', Some ''https://github.com/acme''),
           (''repository'', Some ''https://github.com/other/widget'')])
         = Some (''https://github.com/'' @ ''acme'' @ ''/'' @ ''widget'')"
    by code_simp
  then show ?thesis by blast
qed

section \<open>The choice list\<close>










text \<open>
  C7. For every manifest mapping in which the five known fields are absent, extraction
  yields the record with all five fields \<open>null\<close>, and the choice list built from it with
  no remote URL is empty: it has no entry that cancels either.
\<close>

theorem C7_no_known_fields:
  assumes "map_of packageJson ''homepage'' = None"
    and "map_of packageJson ''author'' = None"
    and "map_of packageJson ''repository'' = None"
    and "map_of packageJson ''bugs'' = None"
    and "map_of packageJson ''funding'' = None"
  shows "findUrlsFromPackageJson packageJson =
           Inr [(''homepage'', None), (''author'', None), (''repository'', None),
                (''bugs'', None), (''funding'', None)]
         \<and> choicesOf packageJson None = Inr []"
proof -
  have e: "findUrlsFromPackageJson packageJson =
           Inr [(''homepage'', None), (''author'', None), (''repository'', None),
                (''bugs'', None), (''funding'', None)]"
    using assms
    by (simp add: findUrlsFromPackageJson_def getFromUrlProperty_absent author_absent
        repository_absent)
  have c: "makeChoices
             [(''homepage'', None), (''author'', None), (''repository'', None),
              (''bugs'', None), (''funding'', None)]
             (detectGitHubUrls
                [(''homepage'', None), (''author'', None), (''repository'', None),
                 (''bugs'', None), (''funding'', None)]) = []"
    by code_simp
  show ?thesis
    by (simp add: e choicesOf_def mergeGitRemoteUrl_def falsy_def c)
qed

text \<open>The theorem of C7 at a manifest with a name and a version only.\<close>

theorem C7_no_known_fields_witness:
  "findUrlsFromPackageJson [(''name'', JStr ''widget''), (''version'', JStr ''1.0.0'')] =
     Inr [(''homepage'', None), (''author'', None), (''repository'', None),
          (''bugs'', None), (''funding'', None)]
   \<and> choicesOf [(''name'', JStr ''widget''), (''version'', JStr ''1.0.0'')] None = Inr []"
  by (rule C7_no_known_fields) simp_all




section \<open>What the extraction reads\<close>

text \<open>
  The extraction reads the five known properties of the manifest and nothing else: two
  manifests that agree on them are extracted alike.
\<close>

lemma findUrlsFromPackageJson_known_fields:
  assumes "\<forall>key \<in> {''homepage'', ''author'', ''repository'', ''bugs'', ''funding''}.
             map_of packageJson1 key = map_of packageJson2 key"
  shows "findUrlsFromPackageJson packageJson1 = findUrlsFromPackageJson packageJson2"
proof -
  have h: "getFromUrlProperty packageJson1 ''homepage'' = getFromUrlProperty packageJson2 ''homepage''"
    using assms by (simp add: getFromUrlProperty_def)
  have a: "author packageJson1 = author packageJson2"
    using assms by (simp add: author_def getFromUrlProperty_def)
  have r: "repository packageJson1 = repository packageJson2"
    using assms by (simp add: repository_def getFromUrlProperty_def)
  have b: "getFromUrlProperty packageJson1 ''bugs'' = getFromUrlProperty packageJson2 ''bugs''"
    using assms by (simp add: getFromUrlProperty_def)
  have f: "getFromUrlProperty packageJson1 ''funding'' = getFromUrlProperty packageJson2 ''funding''"
    using assms by (simp add: getFromUrlProperty_def)
  show ?thesis
    unfolding findUrlsFromPackageJson_def h a r b f ..
qed

end
